theory Spec2Isabelle
  imports Main
begin

section \<open>The authenticated request wrapper (utils/api.ts)\<close>

text \<open>
  The module wraps \<^verbatim>\<open>fetch\<close> with a bearer credential read from the Supabase client,
  refreshes the credential once after a 401 and signs the user out when the refresh
  yields nothing. Every \<^verbatim>\<open>await\<close> of the source talks to a collaborator outside the
  module (the auth client, the network); the model threads an explicit world through
  these calls, lets each of them either resolve with a value or reject with an error,
  and records every call the wrapper makes in a trace.
\<close>

subsection \<open>Data\<close>

text \<open>An error object made outside this module (an \<^verbatim>\<open>AuthError\<close>, the \<^verbatim>\<open>TypeError\<close> of a
  failed \<^verbatim>\<open>fetch\<close>): its name and its message.\<close>

datatype js_error = JsError string string

text \<open>What a call of the wrapper can fail with: an \<^verbatim>\<open>Error\<close> object the wrapper creates
  itself (\<^verbatim>\<open>throw new Error(msg)\<close>), or the rejection of an awaited call, which no
  \<^verbatim>\<open>try\<close>/\<^verbatim>\<open>catch\<close> of the module intercepts and which therefore reaches the caller as
  it is.\<close>

datatype failure = Error string | Rejected js_error

text \<open>The session of the auth client; the wrapper reads \<^verbatim>\<open>access_token\<close> only.\<close>

record session =
  access_token :: string
  user_id :: string

text \<open>The value \<^verbatim>\<open>getSession\<close> and \<^verbatim>\<open>refreshSession\<close> resolve with:
  \<^verbatim>\<open>{ data: { session }, error }\<close>, both nullable.\<close>

record auth_response =
  data_session :: "session option"
  error :: "js_error option"

text \<open>\<^verbatim>\<open>HeadersInit\<close>, the type of \<^verbatim>\<open>RequestInit.headers\<close>, has three forms: a plain
  object (a finite map from property names to values), an instance of the \<^verbatim>\<open>Headers\<close>
  class (its header list is internal to the instance) and a list of name-value pairs.
  The value of a property of a plain object is a string or, where an array was spread
  into the object, an array of strings.\<close>

datatype header_value = StringValue string | ArrayValue "string list"

datatype headers_init =
  PlainObject "string \<rightharpoonup> header_value"
  | HeadersInstance "(string \<times> string) list"
  | PairList "(string \<times> string) list"

text \<open>\<^verbatim>\<open>RequestInit\<close>, with the fields this module sets or reads (\<open>http_method\<close> is
  its \<^verbatim>\<open>method\<close>); a missing field is \<open>None\<close>.\<close>

record request_init =
  http_method :: "string option"
  headers :: "headers_init option"
  body :: "string option"

record response =
  status :: nat
  response_body :: string

text \<open>The collaborators. Each call takes the world and returns the next one together
  with the value the promise resolved with (\<open>Inr\<close>) or was rejected with (\<open>Inl\<close>).
  \<^verbatim>\<open>signOut\<close> resolves with \<^verbatim>\<open>{ error }\<close>, the error nullable.\<close>

record 'w env =
  getSession :: "'w \<Rightarrow> (js_error + auth_response) \<times> 'w"
  refreshSession :: "'w \<Rightarrow> (js_error + auth_response) \<times> 'w"
  signOut :: "'w \<Rightarrow> (js_error + js_error option) \<times> 'w"
  fetch :: "string \<Rightarrow> request_init \<Rightarrow> 'w \<Rightarrow> (js_error + response) \<times> 'w"

text \<open>The calls a run of the wrapper makes, in order.\<close>

datatype event =
  GetSession
  | Fetch string request_init
  | RefreshSession
  | SignOut

subsection \<open>fetchWithAuth\<close>

text \<open>The property name of an array index: its decimal numeral.\<close>

fun decimal :: "nat \<Rightarrow> string" where
  "decimal n =
     (if n < 10 then [''0123456789'' ! n]
      else decimal (n div 10) @ [''0123456789'' ! (n mod 10)])"

declare decimal.simps [simp del]

text \<open>The spread \<^verbatim>\<open>...options.headers\<close> inside an object literal copies the own enumerable
  properties of its operand: nothing for \<^verbatim>\<open>undefined\<close>, the entries of a plain object,
  nothing for a \<^verbatim>\<open>Headers\<close> instance (it has no own property), and for an array its
  elements under their indices.\<close>

definition spreadHeaders :: "headers_init option \<Rightarrow> (string \<rightharpoonup> header_value)" where
  "spreadHeaders callerHeaders =
     (case callerHeaders of
        None \<Rightarrow> Map.empty
      | Some (PlainObject h) \<Rightarrow> h
      | Some (HeadersInstance entries) \<Rightarrow> Map.empty
      | Some (PairList pairs) \<Rightarrow>
          map_of (zip (map decimal [0..<length pairs])
                      (map (\<lambda>(name, v). ArrayValue [name, v]) pairs)))"

text \<open>The object literal
  \<^verbatim>\<open>{ ...options.headers, 'Authorization': `Bearer ${accessToken}`, 'Content-Type': 'application/json' }\<close>:
  the entries spread, then the two assignments, which replace an entry of the same
  name.\<close>

definition authHeaders :: "headers_init option \<Rightarrow> string \<Rightarrow> (string \<rightharpoonup> header_value)" where
  "authHeaders callerHeaders accessToken =
     ((spreadHeaders callerHeaders)
        (''Authorization'' \<mapsto> StringValue (''Bearer '' @ accessToken)))
        (''Content-Type'' \<mapsto> StringValue ''application/json'')"

text \<open>\<^verbatim>\<open>sessionData.session?.access_token\<close>: undefined when there is no session.\<close>

definition optionalAccessToken :: "session option \<Rightarrow> string option" where
  "optionalAccessToken s = (case s of None \<Rightarrow> None | Some x \<Rightarrow> Some (access_token x))"

text \<open>\<^verbatim>\<open>{ ...options, headers }\<close>: the caller's options with the header object replaced.\<close>

definition withHeaders ::
  "request_init \<Rightarrow> (string \<rightharpoonup> header_value) \<Rightarrow> request_init" where
  "withHeaders options h = options\<lparr>headers := Some (PlainObject h)\<rparr>"

text \<open>The result of a run: what the promise settles with, the calls made, the world left
  behind.\<close>

definition fetchWithAuth ::
  "'w env \<Rightarrow> string \<Rightarrow> request_init \<Rightarrow> 'w \<Rightarrow> (failure + response) \<times> event list \<times> 'w" where
  "fetchWithAuth env url options w0 =
    (case getSession env w0 of
      (Inl e, w1) \<Rightarrow> (Inl (Rejected e), [GetSession], w1)
    | (Inr sessionData, w1) \<Rightarrow>
        if error sessionData \<noteq> None
        then (Inl (Error ''Failed to get session. Please login again.''), [GetSession], w1)
        else
          (case optionalAccessToken (data_session sessionData) of
            None \<Rightarrow>
              (Inl (Error ''No access token available. Please login again.''), [GetSession], w1)
          | Some accessToken \<Rightarrow>
              if accessToken = []
              then (Inl (Error ''No access token available. Please login again.''),
                    [GetSession], w1)
              else
                let init = withHeaders options (authHeaders (headers options) accessToken)
                in
                (case fetch env url init w1 of
                  (Inl e, w2) \<Rightarrow> (Inl (Rejected e), [GetSession, Fetch url init], w2)
                | (Inr response, w2) \<Rightarrow>
                    if status response = 401
                    then
                      (case refreshSession env w2 of
                        (Inl e, w3) \<Rightarrow>
                          (Inl (Rejected e), [GetSession, Fetch url init, RefreshSession], w3)
                      | (Inr refreshData, w3) \<Rightarrow>
                          (case (error refreshData, data_session refreshData) of
                            (None, Some refreshed) \<Rightarrow>
                              let newInit = withHeaders options
                                    (authHeaders (headers options) (access_token refreshed))
                              in
                              (case fetch env url newInit w3 of
                                (Inl e, w4) \<Rightarrow>
                                  (Inl (Rejected e),
                                   [GetSession, Fetch url init, RefreshSession, Fetch url newInit],
                                   w4)
                              | (Inr retried, w4) \<Rightarrow>
                                  (Inr retried,
                                   [GetSession, Fetch url init, RefreshSession, Fetch url newInit],
                                   w4))
                          | _ \<Rightarrow>
                              (case signOut env w3 of
                                (Inl e, w4) \<Rightarrow>
                                  (Inl (Rejected e),
                                   [GetSession, Fetch url init, RefreshSession, SignOut], w4)
                              | (Inr _, w4) \<Rightarrow>
                                  (Inl (Error ''Session expired. Please login again.''),
                                   [GetSession, Fetch url init, RefreshSession, SignOut], w4))))
                    else (Inr response, [GetSession, Fetch url init], w2))))"

text \<open>The calls of a trace that went to the network, to the refresh endpoint and to
  the sign-out.\<close>

fun isFetch :: "event \<Rightarrow> bool" where
  "isFetch (Fetch u i) = True"
| "isFetch e = False"

definition networkCalls :: "event list \<Rightarrow> event list" where
  "networkCalls t = filter isFetch t"

definition refreshCalls :: "event list \<Rightarrow> nat" where
  "refreshCalls t = count_list t RefreshSession"

definition signOutCalls :: "event list \<Rightarrow> nat" where
  "signOutCalls t = count_list t SignOut"

text \<open>The failures of the wrapper's own making, under the names the design document
  uses for them.\<close>

definition SessionUnavailable :: failure where
  "SessionUnavailable = Error ''Failed to get session. Please login again.''"

definition NoCredential :: failure where
  "NoCredential = Error ''No access token available. Please login again.''"

definition SessionExpired :: failure where
  "SessionExpired = Error ''Session expired. Please login again.''"

subsection \<open>postWithAuth, getWithAuth, deleteWithAuth, putWithAuth\<close>

text \<open>The \<^verbatim>\<open>body?: any\<close> argument: a JavaScript value as far as JSON reaches, and
  \<^verbatim>\<open>undefined\<close> for an argument left out. Numbers are the integral ones.\<close>

datatype js_value =
  JUndefined
  | JNull
  | JBool bool
  | JNum int
  | JStr string
  | JArr "js_value list"
  | JObj "(string \<times> js_value) list"

text \<open>The test of \<^verbatim>\<open>body ? ... : ...\<close>: \<^verbatim>\<open>undefined\<close>, \<^verbatim>\<open>null\<close>, \<^verbatim>\<open>false\<close>, \<^verbatim>\<open>0\<close>
  and \<^verbatim>\<open>''\<close> are falsy, every object and array is truthy.\<close>

fun truthy :: "js_value \<Rightarrow> bool" where
  "truthy JUndefined = False"
| "truthy JNull = False"
| "truthy (JBool b) = b"
| "truthy (JNum n) = (n \<noteq> 0)"
| "truthy (JStr s) = (s \<noteq> [])"
| "truthy (JArr xs) = True"
| "truthy (JObj kvs) = True"

text \<open>The template literal of the four helpers; \<^verbatim>\<open>projectId\<close> is imported from
  \<^verbatim>\<open>./supabase/info\<close> and is a parameter here.\<close>

definition functionUrl :: "string \<Rightarrow> string \<Rightarrow> string" where
  "functionUrl projectId path =
     ''https://'' @ projectId @ ''.supabase.co/functions/v1/make-server-b017b546'' @ path"

text \<open>\<^verbatim>\<open>JSON.stringify\<close> belongs to the platform and is a parameter.\<close>

definition postWithAuth ::
  "'w env \<Rightarrow> string \<Rightarrow> (js_value \<Rightarrow> string) \<Rightarrow> string \<Rightarrow> js_value \<Rightarrow> 'w
     \<Rightarrow> (failure + response) \<times> event list \<times> 'w" where
  "postWithAuth env projectId stringify path bodyArg =
     fetchWithAuth env (functionUrl projectId path)
       \<lparr>http_method = Some ''POST'',
        headers = Some (PlainObject [''Content-Type'' \<mapsto> StringValue ''application/json'']),
        body = (if truthy bodyArg then Some (stringify bodyArg) else None)\<rparr>"

definition getWithAuth ::
  "'w env \<Rightarrow> string \<Rightarrow> string \<Rightarrow> 'w \<Rightarrow> (failure + response) \<times> event list \<times> 'w" where
  "getWithAuth env projectId path =
     fetchWithAuth env (functionUrl projectId path)
       \<lparr>http_method = Some ''GET'', headers = None, body = None\<rparr>"

definition deleteWithAuth ::
  "'w env \<Rightarrow> string \<Rightarrow> string \<Rightarrow> 'w \<Rightarrow> (failure + response) \<times> event list \<times> 'w" where
  "deleteWithAuth env projectId path =
     fetchWithAuth env (functionUrl projectId path)
       \<lparr>http_method = Some ''DELETE'', headers = None, body = None\<rparr>"

definition putWithAuth ::
  "'w env \<Rightarrow> string \<Rightarrow> (js_value \<Rightarrow> string) \<Rightarrow> string \<Rightarrow> js_value \<Rightarrow> 'w
     \<Rightarrow> (failure + response) \<times> event list \<times> 'w" where
  "putWithAuth env projectId stringify path bodyArg =
     fetchWithAuth env (functionUrl projectId path)
       \<lparr>http_method = Some ''PUT'',
        headers = Some (PlainObject [''Content-Type'' \<mapsto> StringValue ''application/json'']),
        body = (if truthy bodyArg then Some (stringify bodyArg) else None)\<rparr>"

subsection \<open>A scripted environment\<close>

text \<open>The collaborators as a test double: the auth client answers every call with a
  fixed value, the network answers the \<open>n\<close>-th request with the \<open>n\<close>-th entry of a
  script (and fails once the script is used up). The world counts the requests sent.\<close>

definition scripted ::
  "(js_error + auth_response) \<Rightarrow> (js_error + response) list \<Rightarrow> (js_error + auth_response)
     \<Rightarrow> (js_error + js_error option) \<Rightarrow> nat env" where
  "scripted got answers refreshed signedOut =
     \<lparr>getSession = (\<lambda>w. (got, w)),
      refreshSession = (\<lambda>w. (refreshed, w)),
      signOut = (\<lambda>w. (signedOut, w)),
      fetch = (\<lambda>url init w.
        (if w < length answers then answers ! w
         else Inl (JsError ''TypeError'' ''Failed to fetch''), Suc w))\<rparr>"

definition tokenSession :: "string \<Rightarrow> session" where
  "tokenSession token = \<lparr>access_token = token, user_id = ''u1''\<rparr>"

definition resolved :: "session option \<Rightarrow> auth_response" where
  "resolved s = \<lparr>data_session = s, error = None\<rparr>"

definition sessionOf :: "string \<Rightarrow> js_error + auth_response" where
  "sessionOf token = Inr (resolved (Some (tokenSession token)))"

definition noSession :: "js_error + auth_response" where
  "noSession = Inr (resolved None)"

definition answerWith :: "nat \<Rightarrow> response" where
  "answerWith code = \<lparr>status = code, response_body = []\<rparr>"

definition answer :: "nat \<Rightarrow> js_error + response" where
  "answer code = Inr (answerWith code)"

text \<open>Options of a caller who tries to set the two injected headers directly, and
  options whose headers come as a \<^verbatim>\<open>Headers\<close> instance and as a list of pairs.\<close>

definition spoofed :: request_init where
  "spoofed =
     \<lparr>http_method = Some ''POST'',
      headers = Some (PlainObject
        [''X-Client'' \<mapsto> StringValue ''web'',
         ''Authorization'' \<mapsto> StringValue ''Bearer forged'',
         ''Content-Type'' \<mapsto> StringValue ''text/plain'']),
      body = Some ''{}''\<rparr>"

definition viaHeadersClass :: request_init where
  "viaHeadersClass =
     \<lparr>http_method = Some ''GET'',
      headers = Some (HeadersInstance [(''X-Client'', ''web'')]),
      body = None\<rparr>"

definition viaPairList :: request_init where
  "viaPairList =
     \<lparr>http_method = Some ''GET'',
      headers = Some (PairList [(''X-Client'', ''web'')]),
      body = None\<rparr>"

definition plainGet :: request_init where
  "plainGet = \<lparr>http_method = Some ''GET'', headers = None, body = None\<rparr>"

text \<open>A stand-in for \<^verbatim>\<open>JSON.stringify\<close> on the values the examples send.\<close>

fun stringifySample :: "js_value \<Rightarrow> string" where
  "stringifySample (JBool b) = (if b then ''true'' else ''false'')"
| "stringifySample (JObj kvs) = ''{}''"
| "stringifySample (JArr xs) = ''[]''"
| "stringifySample v = ''null''"

text \<open>The scenarios of the design document's test list, and their neighbours.\<close>

definition firstTry201 :: "nat env" where
  "firstTry201 = scripted (sessionOf ''tokA'') [answer 201] noSession (Inr None)"

definition refreshThen200 :: "nat env" where
  "refreshThen200 =
     scripted (sessionOf ''tokA'') [answer 401, answer 200] (sessionOf ''tokB'') (Inr None)"

definition refreshThen401 :: "nat env" where
  "refreshThen401 =
     scripted (sessionOf ''tokA'') [answer 401, answer 401] (sessionOf ''tokB'') (Inr None)"

definition refreshYieldsNothing :: "nat env" where
  "refreshYieldsNothing = scripted (sessionOf ''tokA'') [answer 401] noSession (Inr None)"

definition signOutReportsError :: "nat env" where
  "signOutReportsError =
     scripted (sessionOf ''tokA'') [answer 401] noSession
       (Inr (Some (JsError ''AuthRetryableFetchError'' ''Failed to fetch'')))"

definition signOutThrows :: "nat env" where
  "signOutThrows =
     scripted (sessionOf ''tokA'') [answer 401] noSession
       (Inl (JsError ''AuthRetryableFetchError'' ''Failed to fetch''))"

definition refreshThrows :: "nat env" where
  "refreshThrows =
     scripted (sessionOf ''tokA'') [answer 401]
       (Inl (JsError ''TypeError'' ''Failed to fetch'')) (Inr None)"

definition networkDown :: "nat env" where
  "networkDown = scripted (sessionOf ''tokA'') [] noSession (Inr None)"

definition providerReportsError :: "nat env" where
  "providerReportsError =
     scripted (Inr \<lparr>data_session = None,
                    error = Some (JsError ''AuthApiError'' ''Invalid Refresh Token'')\<rparr>)
       [answer 200] noSession (Inr None)"

definition providerThrows :: "nat env" where
  "providerThrows =
     scripted (Inl (JsError ''Error'' ''The storage is not available''))
       [answer 200] noSession (Inr None)"

definition signedOut :: "nat env" where
  "signedOut = scripted noSession [answer 200] noSession (Inr None)"

text \<open>The parts of a run.\<close>

definition outcome :: "(failure + response) \<times> event list \<times> 'w \<Rightarrow> failure + response" where
  "outcome run = fst run"

definition calls :: "(failure + response) \<times> event list \<times> 'w \<Rightarrow> event list" where
  "calls run = fst (snd run)"

subsection \<open>The convenience operations as the design document words them\<close>

text \<open>``Thin parameter-binding wrappers around \<^verbatim>\<open>request\<close> that fix the HTTP method and,
  for \<^verbatim>\<open>post\<close>/\<^verbatim>\<open>put\<close>, JSON-encode an optional body'': the body is encoded when the
  caller passed one and is absent when the argument was left out.\<close>

definition encodeOptionalBody :: "(js_value \<Rightarrow> string) \<Rightarrow> js_value \<Rightarrow> string option" where
  "encodeOptionalBody stringify bodyArg =
     (if bodyArg = JUndefined then None else Some (stringify bodyArg))"

definition post_spec ::
  "'w env \<Rightarrow> string \<Rightarrow> (js_value \<Rightarrow> string) \<Rightarrow> string \<Rightarrow> js_value \<Rightarrow> 'w
     \<Rightarrow> (failure + response) \<times> event list \<times> 'w" where
  "post_spec env projectId stringify path bodyArg =
     fetchWithAuth env (functionUrl projectId path)
       \<lparr>http_method = Some ''POST'', headers = None,
        body = encodeOptionalBody stringify bodyArg\<rparr>"

definition put_spec ::
  "'w env \<Rightarrow> string \<Rightarrow> (js_value \<Rightarrow> string) \<Rightarrow> string \<Rightarrow> js_value \<Rightarrow> 'w
     \<Rightarrow> (failure + response) \<times> event list \<times> 'w" where
  "put_spec env projectId stringify path bodyArg =
     fetchWithAuth env (functionUrl projectId path)
       \<lparr>http_method = Some ''PUT'', headers = None,
        body = encodeOptionalBody stringify bodyArg\<rparr>"

definition get_spec ::
  "'w env \<Rightarrow> string \<Rightarrow> string \<Rightarrow> 'w \<Rightarrow> (failure + response) \<times> event list \<times> 'w" where
  "get_spec env projectId path =
     fetchWithAuth env (functionUrl projectId path)
       \<lparr>http_method = Some ''GET'', headers = None, body = None\<rparr>"

definition delete_spec ::
  "'w env \<Rightarrow> string \<Rightarrow> string \<Rightarrow> 'w \<Rightarrow> (failure + response) \<times> event list \<times> 'w" where
  "delete_spec env projectId path =
     fetchWithAuth env (functionUrl projectId path)
       \<lparr>http_method = Some ''DELETE'', headers = None, body = None\<rparr>"

section \<open>Properties\<close>

subsection \<open>Auxiliary facts\<close>

lemma networkCalls_simps:
  "networkCalls [] = []"
  "networkCalls (Fetch u i # t) = Fetch u i # networkCalls t"
  "networkCalls (GetSession # t) = networkCalls t"
  "networkCalls (RefreshSession # t) = networkCalls t"
  "networkCalls (SignOut # t) = networkCalls t"
  by (simp_all add: networkCalls_def)

text \<open>The header object, entry by entry: the two injected entries are looked at first.\<close>

lemma authHeaders_pointwise:
  "authHeaders c tok =
     (\<lambda>k. if k = ''Content-Type'' then Some (StringValue ''application/json'')
          else if k = ''Authorization'' then Some (StringValue (''Bearer '' @ tok))
          else spreadHeaders c k)"
  by (auto simp add: authHeaders_def fun_eq_iff)

lemma authHeaders_json_caller:
  "authHeaders (Some (PlainObject [''Content-Type'' \<mapsto> StringValue ''application/json''])) tok
     = authHeaders None tok"
  by (simp add: authHeaders_pointwise spreadHeaders_def fun_eq_iff)

lemma truthy_defined: "truthy v \<Longrightarrow> v \<noteq> JUndefined"
  by (cases v) simp_all

text \<open>The wrapper reads its options only through the request it builds from them.\<close>

lemma fetchWithAuth_same_request:
  assumes "\<And>tok. withHeaders o1 (authHeaders (headers o1) tok)
               = withHeaders o2 (authHeaders (headers o2) tok)"
  shows "fetchWithAuth env url o1 w = fetchWithAuth env url o2 w"
  unfolding fetchWithAuth_def Let_def assms by (rule refl)

text \<open>The runs that end before the first request.\<close>

lemma run_get_rejected:
  "getSession env w0 = (Inl e, w1) \<Longrightarrow>
     fetchWithAuth env url options w0 = (Inl (Rejected e), [GetSession], w1)"
  by (simp add: fetchWithAuth_def)

lemma run_get_error:
  "getSession env w0 = (Inr sd, w1) \<Longrightarrow> error sd \<noteq> None \<Longrightarrow>
     fetchWithAuth env url options w0 = (Inl SessionUnavailable, [GetSession], w1)"
  by (simp add: fetchWithAuth_def SessionUnavailable_def)

lemma run_no_token:
  "getSession env w0 = (Inr sd, w1) \<Longrightarrow> error sd = None \<Longrightarrow>
   data_session sd = None \<or> (\<exists>s. data_session sd = Some s \<and> access_token s = []) \<Longrightarrow>
     fetchWithAuth env url options w0 = (Inl NoCredential, [GetSession], w1)"
  by (auto simp add: fetchWithAuth_def optionalAccessToken_def NoCredential_def)

text \<open>The run from the first request on, once a credential is at hand.\<close>

lemma run_first_attempt:
  assumes "getSession env w0 = (Inr sd, w1)" and "error sd = None"
    and "data_session sd = Some s" and "access_token s \<noteq> []"
    and "init = withHeaders options (authHeaders (headers options) (access_token s))"
    and "fetch env url init w1 = (first, w2)"
  shows "fetchWithAuth env url options w0 =
     (case first of
        Inl e \<Rightarrow> (Inl (Rejected e), [GetSession, Fetch url init], w2)
      | Inr r \<Rightarrow>
          if status r = 401
          then (case refreshSession env w2 of
                 (Inl e, w3) \<Rightarrow>
                   (Inl (Rejected e), [GetSession, Fetch url init, RefreshSession], w3)
               | (Inr rd, w3) \<Rightarrow>
                   (case (error rd, data_session rd) of
                      (None, Some s') \<Rightarrow>
                        (case fetch env url (withHeaders options
                                 (authHeaders (headers options) (access_token s'))) w3 of
                           (second, w4) \<Rightarrow>
                             (case second of Inl e \<Rightarrow> Inl (Rejected e) | Inr r2 \<Rightarrow> Inr r2,
                              [GetSession, Fetch url init, RefreshSession,
                               Fetch url (withHeaders options
                                 (authHeaders (headers options) (access_token s')))], w4))
                    | _ \<Rightarrow>
                        (case signOut env w3 of
                           (so, w4) \<Rightarrow>
                             (case so of Inl e \<Rightarrow> Inl (Rejected e)
                                       | Inr x \<Rightarrow> Inl SessionExpired,
                              [GetSession, Fetch url init, RefreshSession, SignOut], w4))))
          else (Inr r, [GetSession, Fetch url init], w2))"
  using assms
  by (simp add: fetchWithAuth_def optionalAccessToken_def SessionExpired_def Let_def
      split: sum.splits prod.splits option.splits)

text \<open>Every run takes one of eight paths.\<close>

lemma fetchWithAuth_paths:
  obtains
    (GetRejected) e w1 where "getSession env w0 = (Inl e, w1)"
      and "fetchWithAuth env url options w0 = (Inl (Rejected e), [GetSession], w1)"
  | (GetError) sd w1 where "getSession env w0 = (Inr sd, w1)" and "error sd \<noteq> None"
      and "fetchWithAuth env url options w0 = (Inl SessionUnavailable, [GetSession], w1)"
  | (NoToken) sd w1 where "getSession env w0 = (Inr sd, w1)" and "error sd = None"
      and "fetchWithAuth env url options w0 = (Inl NoCredential, [GetSession], w1)"
  | (FetchRejected) sd w1 s init e w2 where "getSession env w0 = (Inr sd, w1)"
      and "data_session sd = Some s"
      and "init = withHeaders options (authHeaders (headers options) (access_token s))"
      and "fetch env url init w1 = (Inl e, w2)"
      and "fetchWithAuth env url options w0 =
             (Inl (Rejected e), [GetSession, Fetch url init], w2)"
  | (Passed) sd w1 s init r w2 where "getSession env w0 = (Inr sd, w1)"
      and "data_session sd = Some s"
      and "init = withHeaders options (authHeaders (headers options) (access_token s))"
      and "fetch env url init w1 = (Inr r, w2)" and "status r \<noteq> 401"
      and "fetchWithAuth env url options w0 = (Inr r, [GetSession, Fetch url init], w2)"
  | (RefreshRejected) sd w1 s init r w2 e w3 where "getSession env w0 = (Inr sd, w1)"
      and "data_session sd = Some s"
      and "init = withHeaders options (authHeaders (headers options) (access_token s))"
      and "fetch env url init w1 = (Inr r, w2)" and "status r = 401"
      and "refreshSession env w2 = (Inl e, w3)"
      and "fetchWithAuth env url options w0 =
             (Inl (Rejected e), [GetSession, Fetch url init, RefreshSession], w3)"
  | (Retried) sd w1 s init r w2 rd w3 s' newInit second w4 where
          "getSession env w0 = (Inr sd, w1)"
      and "data_session sd = Some s"
      and "init = withHeaders options (authHeaders (headers options) (access_token s))"
      and "fetch env url init w1 = (Inr r, w2)" and "status r = 401"
      and "refreshSession env w2 = (Inr rd, w3)" and "error rd = None"
      and "data_session rd = Some s'"
      and "newInit = withHeaders options (authHeaders (headers options) (access_token s'))"
      and "fetch env url newInit w3 = (second, w4)"
      and "fetchWithAuth env url options w0 =
             ((case second of Inl e \<Rightarrow> Inl (Rejected e) | Inr r2 \<Rightarrow> Inr r2),
              [GetSession, Fetch url init, RefreshSession, Fetch url newInit], w4)"
  | (LoggedOut) sd w1 s init r w2 rd w3 so w4 where
          "getSession env w0 = (Inr sd, w1)"
      and "data_session sd = Some s"
      and "init = withHeaders options (authHeaders (headers options) (access_token s))"
      and "fetch env url init w1 = (Inr r, w2)" and "status r = 401"
      and "refreshSession env w2 = (Inr rd, w3)"
      and "error rd \<noteq> None \<or> data_session rd = None"
      and "signOut env w3 = (so, w4)"
      and "fetchWithAuth env url options w0 =
             ((case so of Inl e \<Rightarrow> Inl (Rejected e) | Inr x \<Rightarrow> Inl SessionExpired),
              [GetSession, Fetch url init, RefreshSession, SignOut], w4)"
proof -
  obtain got w1 where g: "getSession env w0 = (got, w1)"
    by (cases "getSession env w0")
  show thesis
  proof (cases got)
    case (Inl e)
    with g show thesis using GetRejected run_get_rejected by metis
  next
    case (Inr sd)
    note sd = g [unfolded Inr]
    show thesis
    proof (cases "error sd = None")
      case False
      with sd show thesis using GetError run_get_error by metis
    next
      case noerr: True
      show thesis
      proof (cases "data_session sd = None
                    \<or> (\<exists>s. data_session sd = Some s \<and> access_token s = [])")
        case True
        from run_no_token [OF sd noerr True] show thesis using NoToken sd noerr by metis
      next
        case False
        then obtain s where s: "data_session sd = Some s" "access_token s \<noteq> []" by auto
        define init where
          "init = withHeaders options (authHeaders (headers options) (access_token s))"
        obtain first w2 where f: "fetch env url init w1 = (first, w2)"
          by (cases "fetch env url init w1")
        note run = run_first_attempt [OF sd noerr s init_def f]
        show thesis
        proof (cases first)
          case (Inl e)
          with run have "fetchWithAuth env url options w0 =
              (Inl (Rejected e), [GetSession, Fetch url init], w2)"
            by simp
          then show thesis using FetchRejected [OF sd s(1) init_def] f Inl by simp
        next
          case (Inr r)
          note f' = f [unfolded Inr]
          show thesis
          proof (cases "status r = 401")
            case False
            with run Inr have "fetchWithAuth env url options w0 =
                (Inr r, [GetSession, Fetch url init], w2)"
              by simp
            then show thesis using Passed [OF sd s(1) init_def f' False] by simp
          next
            case st: True
            obtain rr w3 where rf: "refreshSession env w2 = (rr, w3)"
              by (cases "refreshSession env w2")
            show thesis
            proof (cases rr)
              case (Inl e)
              with run Inr st rf have "fetchWithAuth env url options w0 =
                  (Inl (Rejected e), [GetSession, Fetch url init, RefreshSession], w3)"
                by simp
              then show thesis
                using RefreshRejected [OF sd s(1) init_def f' st] rf Inl by simp
            next
              case rd: (Inr rd)
              note rf' = rf [unfolded rd]
              show thesis
              proof (cases "error rd \<noteq> None \<or> data_session rd = None")
                case True
                obtain so w4 where so: "signOut env w3 = (so, w4)"
                  by (cases "signOut env w3")
                from run Inr st rf' True so have "fetchWithAuth env url options w0 =
                    ((case so of Inl e \<Rightarrow> Inl (Rejected e) | Inr x \<Rightarrow> Inl SessionExpired),
                     [GetSession, Fetch url init, RefreshSession, SignOut], w4)"
                  by (auto split: option.splits)
                then show thesis
                  using LoggedOut [OF sd s(1) init_def f' st rf' True so] by simp
              next
                case False
                then obtain s' where s': "error rd = None" "data_session rd = Some s'"
                  by auto
                define newInit where
                  "newInit = withHeaders options
                     (authHeaders (headers options) (access_token s'))"
                obtain second w4 where f2: "fetch env url newInit w3 = (second, w4)"
                  by (cases "fetch env url newInit w3")
                from run Inr st rf' s' f2 have "fetchWithAuth env url options w0 =
                    ((case second of Inl e \<Rightarrow> Inl (Rejected e) | Inr r2 \<Rightarrow> Inr r2),
                     [GetSession, Fetch url init, RefreshSession, Fetch url newInit], w4)"
                  by (simp add: newInit_def)
                then show thesis
                  using Retried [OF sd s(1) init_def f' st rf' s' newInit_def f2] by simp
              qed
            qed
          qed
        qed
      qed
    qed
  qed
qed

text \<open>Evaluating the scripted environment.\<close>

lemmas scenario_defs =
  scripted_def sessionOf_def noSession_def answer_def resolved_def tokenSession_def
  answerWith_def plainGet_def spoofed_def viaHeadersClass_def viaPairList_def
  firstTry201_def refreshThen200_def signOutReportsError_def
  refreshThen401_def refreshYieldsNothing_def signOutThrows_def refreshThrows_def
  networkDown_def
  providerReportsError_def providerThrows_def signedOut_def

subsection \<open>The retry protocol\<close>

text \<open>C1. When the first request is answered with status 401 and the refresh resolves
  without an error and with a session, the wrapper sends exactly two requests, the
  second one carrying \<^verbatim>\<open>Authorization: Bearer <refreshed token>\<close>, and settles with
  whatever the second request settles with: its response, whatever the status (a second
  401 included), and no further call is made.\<close>

theorem retry_after_refresh:
  assumes "getSession env w0 = (Inr sd, w1)" and "error sd = None"
    and "data_session sd = Some s" and "access_token s \<noteq> []"
    and "init = withHeaders options (authHeaders (headers options) (access_token s))"
    and "fetch env url init w1 = (Inr r1, w2)" and "status r1 = 401"
    and "refreshSession env w2 = (Inr rd, w3)" and "error rd = None"
    and "data_session rd = Some s'"
    and "newInit = withHeaders options (authHeaders (headers options) (access_token s'))"
    and "fetch env url newInit w3 = (second, w4)"
  shows "fetchWithAuth env url options w0 =
           ((case second of Inl e \<Rightarrow> Inl (Rejected e) | Inr r2 \<Rightarrow> Inr r2),
            [GetSession, Fetch url init, RefreshSession, Fetch url newInit], w4)
       \<and> networkCalls [GetSession, Fetch url init, RefreshSession, Fetch url newInit]
           = [Fetch url init, Fetch url newInit]
       \<and> (\<exists>h. headers newInit = Some (PlainObject h)
              \<and> h ''Authorization'' = Some (StringValue (''Bearer '' @ access_token s')))"
  using run_first_attempt [OF assms(1-6)] assms(7-)
  by (simp add: networkCalls_simps withHeaders_def authHeaders_pointwise)

theorem retry_after_refresh_witness:
  "fetchWithAuth refreshThen200 ''/posts'' plainGet 0 =
     (Inr (answerWith 200),
      [GetSession, Fetch ''/posts'' (withHeaders plainGet (authHeaders None ''tokA'')),
       RefreshSession, Fetch ''/posts'' (withHeaders plainGet (authHeaders None ''tokB''))], 2)
   \<and> authHeaders None ''tokB'' ''Authorization'' = Some (StringValue ''Bearer tokB'')
   \<and> fetchWithAuth refreshThen401 ''/posts'' plainGet 0 =
     (Inr (answerWith 401),
      [GetSession, Fetch ''/posts'' (withHeaders plainGet (authHeaders None ''tokA'')),
       RefreshSession, Fetch ''/posts'' (withHeaders plainGet (authHeaders None ''tokB''))], 2)"
  using
    retry_after_refresh [of refreshThen200 0 "resolved (Some (tokenSession ''tokA''))" 0
      "tokenSession ''tokA''" "withHeaders plainGet (authHeaders None ''tokA'')" plainGet
      "''/posts''" "answerWith 401" 1 "resolved (Some (tokenSession ''tokB''))" 1
      "tokenSession ''tokB''" "withHeaders plainGet (authHeaders None ''tokB'')"
      "Inr (answerWith 200)" 2]
    retry_after_refresh [of refreshThen401 0 "resolved (Some (tokenSession ''tokA''))" 0
      "tokenSession ''tokA''" "withHeaders plainGet (authHeaders None ''tokA'')" plainGet
      "''/posts''" "answerWith 401" 1 "resolved (Some (tokenSession ''tokB''))" 1
      "tokenSession ''tokB''" "withHeaders plainGet (authHeaders None ''tokB'')"
      "Inr (answerWith 401)" 2]
  by (simp add: scenario_defs withHeaders_def authHeaders_pointwise)

text \<open>C2, as the code has it. When the first request is answered with status 401 and
  the refresh resolves with an error or without a session, the wrapper has sent exactly
  one request and calls \<^verbatim>\<open>signOut\<close> exactly once. It fails with
  ``Session expired'' when that call returns; when \<^verbatim>\<open>signOut\<close> itself throws, what it
  threw reaches the caller instead. When the \<^verbatim>\<open>refreshSession\<close> call itself throws,
  what it threw reaches the caller after that one request, and \<^verbatim>\<open>signOut\<close> is not
  called.\<close>

theorem refresh_failure_signs_out:
  assumes "getSession env w0 = (Inr sd, w1)" and "error sd = None"
    and "data_session sd = Some s" and "access_token s \<noteq> []"
    and "init = withHeaders options (authHeaders (headers options) (access_token s))"
    and "fetch env url init w1 = (Inr r1, w2)" and "status r1 = 401"
  shows "(refreshSession env w2 = (Inr rd, w3)
          \<and> (error rd \<noteq> None \<or> data_session rd = None)
          \<and> signOut env w3 = (so, w4) \<longrightarrow>
            fetchWithAuth env url options w0 =
              ((case so of Inl e \<Rightarrow> Inl (Rejected e) | Inr x \<Rightarrow> Inl SessionExpired),
               [GetSession, Fetch url init, RefreshSession, SignOut], w4)
            \<and> length (networkCalls [GetSession, Fetch url init, RefreshSession, SignOut]) = 1
            \<and> signOutCalls [GetSession, Fetch url init, RefreshSession, SignOut] = 1)
       \<and> (refreshSession env w2 = (Inl e', w3') \<longrightarrow>
            fetchWithAuth env url options w0 =
              (Inl (Rejected e'), [GetSession, Fetch url init, RefreshSession], w3')
            \<and> length (networkCalls [GetSession, Fetch url init, RefreshSession]) = 1
            \<and> signOutCalls [GetSession, Fetch url init, RefreshSession] = 0)"
  using run_first_attempt [OF assms(1-6)] assms(7)
  by (auto simp add: networkCalls_simps signOutCalls_def split: option.splits)

theorem refresh_failure_signs_out_witness:
  "fetchWithAuth refreshYieldsNothing ''/posts'' plainGet 0 =
     (Inl SessionExpired,
      [GetSession, Fetch ''/posts'' (withHeaders plainGet (authHeaders None ''tokA'')),
       RefreshSession, SignOut], 1)
   \<and> signOutCalls
        [GetSession, Fetch ''/posts'' (withHeaders plainGet (authHeaders None ''tokA'')),
         RefreshSession, SignOut] = 1
   \<and> fetchWithAuth signOutThrows ''/posts'' plainGet 0 =
     (Inl (Rejected (JsError ''AuthRetryableFetchError'' ''Failed to fetch'')),
      [GetSession, Fetch ''/posts'' (withHeaders plainGet (authHeaders None ''tokA'')),
       RefreshSession, SignOut], 1)
   \<and> fetchWithAuth refreshThrows ''/posts'' plainGet 0 =
     (Inl (Rejected (JsError ''TypeError'' ''Failed to fetch'')),
      [GetSession, Fetch ''/posts'' (withHeaders plainGet (authHeaders None ''tokA'')),
       RefreshSession], 1)"
  using
    refresh_failure_signs_out [of refreshYieldsNothing 0
      "resolved (Some (tokenSession ''tokA''))" 0 "tokenSession ''tokA''"
      "withHeaders plainGet (authHeaders None ''tokA'')" plainGet "''/posts''"
      "answerWith 401" 1 "resolved None" 1 "Inr None" 1]
    refresh_failure_signs_out [of signOutThrows 0
      "resolved (Some (tokenSession ''tokA''))" 0 "tokenSession ''tokA''"
      "withHeaders plainGet (authHeaders None ''tokA'')" plainGet "''/posts''"
      "answerWith 401" 1 "resolved None" 1
      "Inl (JsError ''AuthRetryableFetchError'' ''Failed to fetch'')" 1]
    refresh_failure_signs_out [of refreshThrows 0
      "resolved (Some (tokenSession ''tokA''))" 0 "tokenSession ''tokA''"
      "withHeaders plainGet (authHeaders None ''tokA'')" plainGet "''/posts''"
      "answerWith 401" 1 _ _ _ _ "JsError ''TypeError'' ''Failed to fetch''" 1]
  by (simp add: scenario_defs withHeaders_def authHeaders_pointwise)

text \<open>C2 as stated fails where \<^verbatim>\<open>signOut\<close> throws: the first request was answered
  with 401, the refresh resolved without a session, and the call does not fail with
  ``Session expired''. It fails as well where \<^verbatim>\<open>refreshSession\<close> throws: no
  \<^verbatim>\<open>signOut\<close> then, and no ``Session expired''.\<close>

theorem session_expired_lost_counterexample:
  "fetch signOutThrows ''/posts'' (withHeaders plainGet (authHeaders None ''tokA'')) 0
     = (Inr (answerWith 401), 1)
   \<and> refreshSession signOutThrows 1 = (Inr (resolved None), 1)
   \<and> outcome (fetchWithAuth signOutThrows ''/posts'' plainGet 0)
       = Inl (Rejected (JsError ''AuthRetryableFetchError'' ''Failed to fetch''))
   \<and> outcome (fetchWithAuth signOutThrows ''/posts'' plainGet 0) \<noteq> Inl SessionExpired
   \<and> fetch refreshThrows ''/posts'' (withHeaders plainGet (authHeaders None ''tokA'')) 0
     = (Inr (answerWith 401), 1)
   \<and> refreshSession refreshThrows 1 = (Inl (JsError ''TypeError'' ''Failed to fetch''), 1)
   \<and> outcome (fetchWithAuth refreshThrows ''/posts'' plainGet 0) \<noteq> Inl SessionExpired
   \<and> signOutCalls (calls (fetchWithAuth refreshThrows ''/posts'' plainGet 0)) = 0"
  by (simp add: scenario_defs fetchWithAuth_def optionalAccessToken_def outcome_def calls_def
      SessionExpired_def withHeaders_def signOutCalls_def)

text \<open>C3. When the session is retrieved with a credential and the first request is
  answered with a status other than 401, the wrapper has sent exactly one request, has
  asked for no refresh and no sign-out, and returns that response as it is.\<close>

theorem non401_passes_through:
  assumes "getSession env w0 = (Inr sd, w1)" and "error sd = None"
    and "data_session sd = Some s" and "access_token s \<noteq> []"
    and "init = withHeaders options (authHeaders (headers options) (access_token s))"
    and "fetch env url init w1 = (Inr r, w2)"
    and "status r \<noteq> 401"
  shows "fetchWithAuth env url options w0 = (Inr r, [GetSession, Fetch url init], w2)
       \<and> length (networkCalls [GetSession, Fetch url init]) = 1
       \<and> refreshCalls [GetSession, Fetch url init] = 0
       \<and> signOutCalls [GetSession, Fetch url init] = 0"
  using run_first_attempt [OF assms(1-6)] assms(7)
  by (simp add: networkCalls_simps refreshCalls_def signOutCalls_def)

theorem non401_passes_through_witness:
  "fetchWithAuth firstTry201 ''/posts'' spoofed 0 =
     (Inr (answerWith 201),
      [GetSession,
       Fetch ''/posts'' (withHeaders spoofed (authHeaders (headers spoofed) ''tokA''))], 1)
   \<and> fetchWithAuth (scripted (sessionOf ''tokA'') [answer 500] noSession (Inr None))
        ''/posts'' plainGet 0 =
     (Inr (answerWith 500),
      [GetSession, Fetch ''/posts'' (withHeaders plainGet (authHeaders None ''tokA''))], 1)"
  using
    non401_passes_through [of firstTry201 0 "resolved (Some (tokenSession ''tokA''))" 0
      "tokenSession ''tokA''" "withHeaders spoofed (authHeaders (headers spoofed) ''tokA'')"
      spoofed "''/posts''" "answerWith 201" 1]
    non401_passes_through [of "scripted (sessionOf ''tokA'') [answer 500] noSession (Inr None)"
      0 "resolved (Some (tokenSession ''tokA''))" 0
      "tokenSession ''tokA''" "withHeaders plainGet (authHeaders None ''tokA'')"
      plainGet "''/posts''" "answerWith 500" 1]
  by (simp add: scenario_defs withHeaders_def)

text \<open>C4. Whatever the collaborators answer, one call of the wrapper sends at most two
  requests and asks for at most one refresh, a second request only after a refresh; it
  makes at most four calls in all and then settles.\<close>

theorem at_most_one_retry_cycle:
  "length (networkCalls (calls (fetchWithAuth env url options w0))) \<le> 2
   \<and> refreshCalls (calls (fetchWithAuth env url options w0)) \<le> 1
   \<and> length (networkCalls (calls (fetchWithAuth env url options w0)))
        \<le> 1 + refreshCalls (calls (fetchWithAuth env url options w0))
   \<and> length (calls (fetchWithAuth env url options w0)) \<le> 4"
  by (cases rule: fetchWithAuth_paths [of env w0 url options])
     (simp_all add: calls_def networkCalls_simps refreshCalls_def)

theorem at_most_one_retry_cycle_witness:
  "length (networkCalls (calls (fetchWithAuth refreshThen401 ''/posts'' plainGet 0))) \<le> 2
   \<and> refreshCalls (calls (fetchWithAuth refreshThen401 ''/posts'' plainGet 0)) \<le> 1
   \<and> length (networkCalls (calls (fetchWithAuth refreshThen401 ''/posts'' plainGet 0)))
        \<le> 1 + refreshCalls (calls (fetchWithAuth refreshThen401 ''/posts'' plainGet 0))
   \<and> length (calls (fetchWithAuth refreshThen401 ''/posts'' plainGet 0)) \<le> 4"
  using at_most_one_retry_cycle [of refreshThen401 "''/posts''" plainGet 0]
  by simp

subsection \<open>The headers sent\<close>




subsection \<open>Failures\<close>

text \<open>C6. When the session is retrieved with a credential and the first \<^verbatim>\<open>fetch\<close>
  rejects, the rejection reaches the caller as it is; one request was attempted, no
  refresh, no second request and no sign-out.\<close>

theorem network_failure_propagates:
  assumes "getSession env w0 = (Inr sd, w1)" and "error sd = None"
    and "data_session sd = Some s" and "access_token s \<noteq> []"
    and "init = withHeaders options (authHeaders (headers options) (access_token s))"
    and "fetch env url init w1 = (Inl e, w2)"
  shows "fetchWithAuth env url options w0 = (Inl (Rejected e), [GetSession, Fetch url init], w2)
       \<and> networkCalls [GetSession, Fetch url init] = [Fetch url init]
       \<and> refreshCalls [GetSession, Fetch url init] = 0
       \<and> signOutCalls [GetSession, Fetch url init] = 0"
  using run_first_attempt [OF assms]
  by (simp add: networkCalls_simps refreshCalls_def signOutCalls_def)

theorem network_failure_propagates_witness:
  "fetchWithAuth networkDown ''/posts'' plainGet 0 =
     (Inl (Rejected (JsError ''TypeError'' ''Failed to fetch'')),
      [GetSession, Fetch ''/posts'' (withHeaders plainGet (authHeaders None ''tokA''))], 1)"
  using
    network_failure_propagates [of networkDown 0 "resolved (Some (tokenSession ''tokA''))" 0
      "tokenSession ''tokA''" "withHeaders plainGet (authHeaders None ''tokA'')" plainGet
      "''/posts''" "JsError ''TypeError'' ''Failed to fetch''" 1]
  by (simp add: scenario_defs withHeaders_def)

text \<open>C7, as the code has it. When \<^verbatim>\<open>getSession\<close> resolves with an error, the wrapper
  fails with ``Failed to get session''; when \<^verbatim>\<open>getSession\<close> rejects, the rejection
  reaches the caller as it is. In both cases \<^verbatim>\<open>getSession\<close> is the only call made: no
  request, no refresh, no sign-out.\<close>

theorem getSession_failure:
  "(getSession env w0 = (Inr sd, w1) \<and> error sd \<noteq> None \<longrightarrow>
      fetchWithAuth env url options w0 = (Inl SessionUnavailable, [GetSession], w1))
   \<and> (getSession env w0 = (Inl e, w1) \<longrightarrow>
      fetchWithAuth env url options w0 = (Inl (Rejected e), [GetSession], w1))
   \<and> networkCalls [GetSession] = [] \<and> refreshCalls [GetSession] = 0
   \<and> signOutCalls [GetSession] = 0"
  by (simp add: run_get_rejected run_get_error networkCalls_simps refreshCalls_def
      signOutCalls_def)

theorem getSession_failure_witness:
  "fetchWithAuth providerReportsError ''/posts'' plainGet 0
     = (Inl SessionUnavailable, [GetSession], 0)
   \<and> fetchWithAuth providerThrows ''/posts'' plainGet 0
     = (Inl (Rejected (JsError ''Error'' ''The storage is not available'')), [GetSession], 0)"
  using
    getSession_failure [of providerReportsError 0
      "\<lparr>data_session = None,
        error = Some (JsError ''AuthApiError'' ''Invalid Refresh Token'')\<rparr>" 0
      "''/posts''" plainGet]
    getSession_failure [of providerThrows 0 _ 0 "''/posts''" plainGet
      "JsError ''Error'' ''The storage is not available''"]
  by (simp add: scenario_defs)

text \<open>C7 as stated fails where \<^verbatim>\<open>getSession\<close> throws: the caller gets the provider's
  error, not ``Failed to get session''.\<close>

theorem getSession_throws_counterexample:
  "getSession providerThrows 0 = (Inl (JsError ''Error'' ''The storage is not available''), 0)
   \<and> outcome (fetchWithAuth providerThrows ''/posts'' plainGet 0)
       = Inl (Rejected (JsError ''Error'' ''The storage is not available''))
   \<and> outcome (fetchWithAuth providerThrows ''/posts'' plainGet 0) \<noteq> Inl SessionUnavailable"
  by (simp add: scenario_defs fetchWithAuth_def outcome_def SessionUnavailable_def)

text \<open>C8. When \<^verbatim>\<open>getSession\<close> resolves without an error but there is no session, or
  the session's access token is empty, the wrapper fails with ``No access token
  available'' and \<^verbatim>\<open>getSession\<close> is the only call made.\<close>

theorem missing_credential:
  assumes "getSession env w0 = (Inr sd, w1)" and "error sd = None"
    and "data_session sd = None \<or> (\<exists>s. data_session sd = Some s \<and> access_token s = [])"
  shows "fetchWithAuth env url options w0 = (Inl NoCredential, [GetSession], w1)
       \<and> networkCalls [GetSession] = []"
  using run_no_token [OF assms] by (simp add: networkCalls_simps)

theorem missing_credential_witness:
  "fetchWithAuth signedOut ''/posts'' plainGet 0 = (Inl NoCredential, [GetSession], 0)
   \<and> fetchWithAuth (scripted (sessionOf []) [answer 200] noSession (Inr None))
        ''/posts'' plainGet 0 = (Inl NoCredential, [GetSession], 0)"
  using
    missing_credential [of signedOut 0 "resolved None" 0 "''/posts''" plainGet]
    missing_credential [of "scripted (sessionOf []) [answer 200] noSession (Inr None)" 0
      "resolved (Some (tokenSession []))" 0 "''/posts''" plainGet]
  by (simp add: scenario_defs)

text \<open>C10, as the code has it. A call that fails with ``Session expired'' has made the
  four calls \<^verbatim>\<open>getSession\<close>, \<^verbatim>\<open>fetch\<close>, \<^verbatim>\<open>refreshSession\<close>, \<^verbatim>\<open>signOut\<close>, its refresh
  resolved with an error or without a session, and its \<^verbatim>\<open>signOut\<close> returned without
  throwing: the world the failure leaves behind is the one \<^verbatim>\<open>signOut\<close> returned. On
  that path a \<^verbatim>\<open>signOut\<close> that throws makes the call fail with what it threw, in
  place of ``Session expired''; a \<^verbatim>\<open>signOut\<close> that returns makes the call fail with
  ``Session expired'' whatever \<^verbatim>\<open>{ error }\<close> it returned, an error reported there
  being discarded.\<close>

theorem signOut_awaited_before_failure:
  "(fetchWithAuth env url options w0 = (Inl SessionExpired, t, w) \<longrightarrow>
      (\<exists>init w2 rd w3 reported.
          t = [GetSession, Fetch url init, RefreshSession, SignOut]
          \<and> refreshSession env w2 = (Inr rd, w3)
          \<and> (error rd \<noteq> None \<or> data_session rd = None)
          \<and> signOut env w3 = (Inr reported, w)))
   \<and> (getSession env w0 = (Inr sd, w1) \<and> error sd = None
       \<and> data_session sd = Some s \<and> access_token s \<noteq> []
       \<and> init' = withHeaders options (authHeaders (headers options) (access_token s))
       \<and> fetch env url init' w1 = (Inr r1, w2') \<and> status r1 = 401
       \<and> refreshSession env w2' = (Inr rd', w3')
       \<and> (error rd' \<noteq> None \<or> data_session rd' = None) \<longrightarrow>
         (signOut env w3' = (Inl e, w4) \<longrightarrow>
            fetchWithAuth env url options w0 =
              (Inl (Rejected e), [GetSession, Fetch url init', RefreshSession, SignOut], w4))
       \<and> (signOut env w3' = (Inr reported', w4) \<longrightarrow>
            fetchWithAuth env url options w0 =
              (Inl SessionExpired, [GetSession, Fetch url init', RefreshSession, SignOut], w4)))"
proof (intro conjI impI)
  assume run: "fetchWithAuth env url options w0 = (Inl SessionExpired, t, w)"
  show "\<exists>init w2 rd w3 reported.
          t = [GetSession, Fetch url init, RefreshSession, SignOut]
          \<and> refreshSession env w2 = (Inr rd, w3)
          \<and> (error rd \<noteq> None \<or> data_session rd = None)
          \<and> signOut env w3 = (Inr reported, w)"
  proof (cases rule: fetchWithAuth_paths [of env w0 url options])
    case (LoggedOut sd w1 s init r w2 rd w3 so w4)
    with run obtain reported where "so = Inr reported" "w4 = w"
      "t = [GetSession, Fetch url init, RefreshSession, SignOut]"
      by (cases so) (auto simp: SessionExpired_def)
    with LoggedOut show ?thesis by blast
  next
    case (Retried sd w1 s init r w2 rd w3 s' newInit second w4)
    with run show ?thesis by (cases second) (auto simp: SessionExpired_def)
  qed (use run in \<open>auto simp: SessionExpired_def SessionUnavailable_def NoCredential_def\<close>)
next
  assume path: "getSession env w0 = (Inr sd, w1) \<and> error sd = None
       \<and> data_session sd = Some s \<and> access_token s \<noteq> []
       \<and> init' = withHeaders options (authHeaders (headers options) (access_token s))
       \<and> fetch env url init' w1 = (Inr r1, w2') \<and> status r1 = 401
       \<and> refreshSession env w2' = (Inr rd', w3')
       \<and> (error rd' \<noteq> None \<or> data_session rd' = None)"
    and thrown: "signOut env w3' = (Inl e, w4)"
  then show "fetchWithAuth env url options w0 =
         (Inl (Rejected e), [GetSession, Fetch url init', RefreshSession, SignOut], w4)"
    using run_first_attempt [of env w0 sd w1 s init' options url "Inr r1" w2']
    by (auto split: option.splits)
next
  assume path: "getSession env w0 = (Inr sd, w1) \<and> error sd = None
       \<and> data_session sd = Some s \<and> access_token s \<noteq> []
       \<and> init' = withHeaders options (authHeaders (headers options) (access_token s))
       \<and> fetch env url init' w1 = (Inr r1, w2') \<and> status r1 = 401
       \<and> refreshSession env w2' = (Inr rd', w3')
       \<and> (error rd' \<noteq> None \<or> data_session rd' = None)"
    and returned: "signOut env w3' = (Inr reported', w4)"
  then show "fetchWithAuth env url options w0 =
         (Inl SessionExpired, [GetSession, Fetch url init', RefreshSession, SignOut], w4)"
    using run_first_attempt [of env w0 sd w1 s init' options url "Inr r1" w2']
    by (auto split: option.splits)
qed

theorem signOut_awaited_before_failure_witness:
  "(\<exists>init w2 rd w3 reported.
       [GetSession, Fetch ''/posts'' (withHeaders plainGet (authHeaders None ''tokA'')),
        RefreshSession, SignOut] = [GetSession, Fetch ''/posts'' init, RefreshSession, SignOut]
     \<and> refreshSession refreshYieldsNothing w2 = (Inr rd, w3)
     \<and> data_session rd = None
     \<and> signOut refreshYieldsNothing w3 = (Inr reported, 1))
   \<and> fetchWithAuth signOutThrows ''/posts'' plainGet 0 =
       (Inl (Rejected (JsError ''AuthRetryableFetchError'' ''Failed to fetch'')),
        [GetSession, Fetch ''/posts'' (withHeaders plainGet (authHeaders None ''tokA'')),
         RefreshSession, SignOut], 1)
   \<and> fetchWithAuth signOutReportsError ''/posts'' plainGet 0 =
       (Inl SessionExpired,
        [GetSession, Fetch ''/posts'' (withHeaders plainGet (authHeaders None ''tokA'')),
         RefreshSession, SignOut], 1)"
proof -
  let ?init = "withHeaders plainGet (authHeaders None ''tokA'')"
  let ?t = "[GetSession, Fetch ''/posts'' ?init, RefreshSession, SignOut]"
  have run: "fetchWithAuth refreshYieldsNothing ''/posts'' plainGet 0
               = (Inl SessionExpired, ?t, 1)"
    by (simp add: scenario_defs fetchWithAuth_def optionalAccessToken_def SessionExpired_def)
  have path: "getSession env 0 = (Inr (resolved (Some (tokenSession ''tokA''))), 0)
       \<and> error (resolved (Some (tokenSession ''tokA''))) = None
       \<and> data_session (resolved (Some (tokenSession ''tokA''))) = Some (tokenSession ''tokA'')
       \<and> access_token (tokenSession ''tokA'') \<noteq> []
       \<and> ?init = withHeaders plainGet
             (authHeaders (headers plainGet) (access_token (tokenSession ''tokA'')))
       \<and> fetch env ''/posts'' ?init 0 = (Inr (answerWith 401), 1)
       \<and> status (answerWith 401) = 401
       \<and> refreshSession env 1 = (Inr (resolved None), 1)
       \<and> (error (resolved None) \<noteq> None \<or> data_session (resolved None) = None)"
    if "env = signOutThrows \<or> env = signOutReportsError" for env
    using that by (auto simp add: scenario_defs)
  have thrown: "signOut signOutThrows 1
            = (Inl (JsError ''AuthRetryableFetchError'' ''Failed to fetch''), 1)"
    by (simp add: scenario_defs)
  have reported: "signOut signOutReportsError 1
            = (Inr (Some (JsError ''AuthRetryableFetchError'' ''Failed to fetch'')), 1)"
    by (simp add: scenario_defs)
  from signOut_awaited_before_failure [of refreshYieldsNothing "''/posts''" plainGet 0 ?t 1]
    run
  have first: "\<exists>init w2 rd w3 reported.
       ?t = [GetSession, Fetch ''/posts'' init, RefreshSession, SignOut]
     \<and> refreshSession refreshYieldsNothing w2 = (Inr rd, w3)
     \<and> data_session rd = None
     \<and> signOut refreshYieldsNothing w3 = (Inr reported, 1)"
    by (auto simp add: scenario_defs)
  from signOut_awaited_before_failure [of signOutThrows "''/posts''" plainGet 0]
    path [of signOutThrows] thrown
  have second: "fetchWithAuth signOutThrows ''/posts'' plainGet 0 =
       (Inl (Rejected (JsError ''AuthRetryableFetchError'' ''Failed to fetch'')), ?t, 1)"
    by blast
  from signOut_awaited_before_failure [of signOutReportsError "''/posts''" plainGet 0]
    path [of signOutReportsError] reported
  have "fetchWithAuth signOutReportsError ''/posts'' plainGet 0 = (Inl SessionExpired, ?t, 1)"
    by blast
  with first second show ?thesis by blast
qed

text \<open>C10 as stated fails where \<^verbatim>\<open>signOut\<close> reports its failure the way this client
  does, in the value it resolves with: the call fails with ``Session expired'' although
  the termination did not complete without error.\<close>

theorem reported_signOut_error_discarded_counterexample:
  "signOut signOutReportsError 1
     = (Inr (Some (JsError ''AuthRetryableFetchError'' ''Failed to fetch'')), 1)
   \<and> fetchWithAuth signOutReportsError ''/posts'' plainGet 0 =
       (Inl SessionExpired,
        [GetSession, Fetch ''/posts'' (withHeaders plainGet (authHeaders None ''tokA'')),
         RefreshSession, SignOut], 1)"
  by (simp add: scenario_defs fetchWithAuth_def optionalAccessToken_def SessionExpired_def)

subsection \<open>The convenience operations\<close>

text \<open>C9, as the code has it. Each of the four helpers is a call of \<^verbatim>\<open>fetchWithAuth\<close> on
  the function URL of the path with the method fixed. \<^verbatim>\<open>postWithAuth\<close> and
  \<^verbatim>\<open>putWithAuth\<close> send the JSON encoding of the body argument when the argument is
  truthy, and no body otherwise: a body of \<^verbatim>\<open>false\<close>, \<^verbatim>\<open>0\<close>, \<^verbatim>\<open>''\<close> or \<^verbatim>\<open>null\<close> is
  treated like one left out. The \<^verbatim>\<open>Content-Type\<close> header the two helpers pass changes
  nothing, since the wrapper sets the same one.\<close>

theorem convenience_operations:
  "postWithAuth env projectId stringify path bodyArg w
     = post_spec env projectId stringify path (if truthy bodyArg then bodyArg else JUndefined) w
   \<and> putWithAuth env projectId stringify path bodyArg w
     = put_spec env projectId stringify path (if truthy bodyArg then bodyArg else JUndefined) w
   \<and> getWithAuth env projectId path w = get_spec env projectId path w
   \<and> deleteWithAuth env projectId path w = delete_spec env projectId path w"
proof (intro conjI)
  show "postWithAuth env projectId stringify path bodyArg w
     = post_spec env projectId stringify path (if truthy bodyArg then bodyArg else JUndefined) w"
    unfolding postWithAuth_def post_spec_def
    by (rule fetchWithAuth_same_request)
       (simp add: encodeOptionalBody_def withHeaders_def authHeaders_json_caller truthy_defined)
  show "putWithAuth env projectId stringify path bodyArg w
     = put_spec env projectId stringify path (if truthy bodyArg then bodyArg else JUndefined) w"
    unfolding putWithAuth_def put_spec_def
    by (rule fetchWithAuth_same_request)
       (simp add: encodeOptionalBody_def withHeaders_def authHeaders_json_caller truthy_defined)
  show "getWithAuth env projectId path w = get_spec env projectId path w"
    by (simp add: getWithAuth_def get_spec_def)
  show "deleteWithAuth env projectId path w = delete_spec env projectId path w"
    by (simp add: deleteWithAuth_def delete_spec_def)
qed

theorem convenience_operations_witness:
  "postWithAuth firstTry201 ''abc'' stringifySample ''/follows/u2'' (JObj []) 0
     = post_spec firstTry201 ''abc'' stringifySample ''/follows/u2'' (JObj []) 0
   \<and> postWithAuth firstTry201 ''abc'' stringifySample ''/posts/p1'' JUndefined 0
     = post_spec firstTry201 ''abc'' stringifySample ''/posts/p1'' JUndefined 0
   \<and> putWithAuth firstTry201 ''abc'' stringifySample ''/users/u1'' (JNum 0) 0
     = put_spec firstTry201 ''abc'' stringifySample ''/users/u1'' JUndefined 0
   \<and> getWithAuth firstTry201 ''abc'' ''/posts/p1'' 0
     = get_spec firstTry201 ''abc'' ''/posts/p1'' 0
   \<and> deleteWithAuth firstTry201 ''abc'' ''/posts/p1'' 0
     = delete_spec firstTry201 ''abc'' ''/posts/p1'' 0"
  using
    convenience_operations [of firstTry201 "''abc''" stringifySample "''/follows/u2''"
      "JObj []" 0]
    convenience_operations [of firstTry201 "''abc''" stringifySample "''/posts/p1''"
      JUndefined 0]
    convenience_operations [of firstTry201 "''abc''" stringifySample "''/users/u1''"
      "JNum 0" 0]
  by simp

text \<open>C9 as stated fails on a body that is there but falsy: \<^verbatim>\<open>postWithAuth(path, false)\<close>
  sends no body, where the JSON encoding of \<^verbatim>\<open>false\<close> was to be sent.\<close>

theorem falsy_body_dropped_counterexample:
  "calls (postWithAuth firstTry201 ''abc'' stringifySample ''/posts'' (JBool False) 0)
     = [GetSession,
        Fetch ''https://abc.supabase.co/functions/v1/make-server-b017b546/posts''
          \<lparr>http_method = Some ''POST'', headers = Some (PlainObject (authHeaders None ''tokA'')),
           body = None\<rparr>]
   \<and> calls (post_spec firstTry201 ''abc'' stringifySample ''/posts'' (JBool False) 0)
     = [GetSession,
        Fetch ''https://abc.supabase.co/functions/v1/make-server-b017b546/posts''
          \<lparr>http_method = Some ''POST'', headers = Some (PlainObject (authHeaders None ''tokA'')),
           body = Some ''false''\<rparr>]
   \<and> postWithAuth firstTry201 ''abc'' stringifySample ''/posts'' (JBool False) 0
     \<noteq> post_spec firstTry201 ''abc'' stringifySample ''/posts'' (JBool False) 0"
  by (simp add: postWithAuth_def post_spec_def encodeOptionalBody_def functionUrl_def
      scenario_defs fetchWithAuth_def optionalAccessToken_def calls_def withHeaders_def
      authHeaders_json_caller)

end
